theory Spec2Isabelle
  imports Complex_Main "HOL-Library.Char_ord" "HOL-Library.List_Lexorder" "HOL-Library.Multiset"
begin

section \<open>Conventions of the embedding\<close>

text \<open>
  The engine is Python. Its \<open>float\<close> and \<open>Decimal\<close> values are modelled as \<^typ>\<open>real\<close>:
  the arithmetic below is the exact arithmetic that the source's expressions denote,
  without the rounding of IEEE doubles or of the 28-digit decimal context. Integers read
  from the chain (\<open>uint256\<close>, \<open>uint112\<close>, \<open>uint8\<close>) are \<^typ>\<open>nat\<close>. A call to an external
  collaborator (a contract read, a subgraph query) is a field of a record; where the call
  can raise, the field is \<open>option\<close>-valued and \<open>None\<close> stands for the raised exception.
  A Python function that can raise returns \<open>error + 'a\<close>, with \<open>Inl\<close> the exception.
\<close>

type_synonym address = string

datatype error =
    RpcError                     \<comment> \<open>a contract call or HTTP request raised\<close>
  | NoValidPricePath address     \<comment> \<open>\<open>Exception("No valid price path found for token ...")\<close>\<close>
  | Wrapped error                \<comment> \<open>\<open>raise Exception(f"Error ...: {str(e)}")\<close> in a handler\<close>

section \<open>RiskCalculator\<close>

subsection \<open>Step tables\<close>

text \<open>
  \<open>TVL_THRESHOLDS\<close> is a dict literal; Python iterates a dict in insertion order, so the
  table is the list of its items in the order written.
\<close>

definition TVL_THRESHOLDS :: "(real \<times> real) list" where
  "TVL_THRESHOLDS =
     [(10000000, 0.1), (5000000, 0.3), (1000000, 0.5), (500000, 0.7), (0, 0.9)]"

text \<open>
  The loop \<open>for threshold, risk in table.items(): if v >= threshold: return risk\<close>;
  \<open>None\<close> when the loop ends without returning.
\<close>

fun first_threshold :: "(real \<times> real) list \<Rightarrow> real \<Rightarrow> real option" where
  "first_threshold [] v = None"
| "first_threshold ((threshold, risk) # rest) v =
     (if v \<ge> threshold then Some risk else first_threshold rest v)"

definition calculate_tvl_risk :: "real \<Rightarrow> real" where
  "calculate_tvl_risk tvl =
     (case first_threshold TVL_THRESHOLDS tvl of
        Some risk \<Rightarrow> risk
      | None \<Rightarrow> 1.0)"

subsection \<open>Composite score\<close>

record risk_weights =
  w_tvl :: real
  w_volatility :: real
  w_age :: real
  w_il :: real
  w_protocol :: real

definition RISK_WEIGHTS :: risk_weights where
  "RISK_WEIGHTS =
     \<lparr>w_tvl = 0.25, w_volatility = 0.20, w_age = 0.15, w_il = 0.20, w_protocol = 0.20\<rparr>"

definition calculate_composite_risk_score ::
  "risk_weights \<Rightarrow> real \<Rightarrow> real \<Rightarrow> real \<Rightarrow> real \<Rightarrow> real \<Rightarrow> real" where
  "calculate_composite_risk_score W tvl_score volatility_score age_score il_risk protocol_score =
     (let composite_score =
            tvl_score * w_tvl W +
            volatility_score * w_volatility W +
            age_score * w_age W +
            il_risk * w_il W +
            (1 - protocol_score) * w_protocol W
      in min 1.0 (max 0.0 composite_score))"

subsection \<open>Volatility\<close>

text \<open>
  \<open>np.diff\<close> gives the differences of neighbours; dividing it by \<open>price_history[:-1]\<close>
  is elementwise. \<open>np.std\<close> is numpy's default, the population standard deviation:
  the square root of the mean of the squared absolute deviations from the mean. Division
  by a zero price is numpy's \<open>inf\<close> or \<open>nan\<close> with a warning, where HOL's \<open>x / 0\<close> is 0;
  the property below is stated for positive prices only.
\<close>

fun np_diff :: "real list \<Rightarrow> real list" where
  "np_diff (x # y # rest) = (y - x) # np_diff (y # rest)"
| "np_diff _ = []"

definition np_mean :: "real list \<Rightarrow> real" where
  "np_mean xs = sum_list xs / real (length xs)"

definition np_std :: "real list \<Rightarrow> real" where
  "np_std xs = sqrt (np_mean (map (\<lambda>x. \<bar>x - np_mean xs\<bar> ^ 2) xs))"

definition calculate_pool_volatility :: "real list \<Rightarrow> real" where
  "calculate_pool_volatility price_history =
     (if length price_history < 2 then 0.0
      else
        (let returns = map2 (\<lambda>d p. d / p) (np_diff price_history) (butlast price_history);
             daily_vol = np_std returns;
             annual_vol = daily_vol * sqrt 365;
             volatility_score = min 1.0 annual_vol
         in volatility_score))"

section \<open>APRCalculator\<close>

text \<open>
  \<open>BLOCKS_PER_YEAR\<close> is the constructor's default, the value the scanner builds the
  calculator with; \<open>PRECISION\<close> is \<open>Decimal('1e18')\<close>.
\<close>

definition BLOCKS_PER_YEAR :: nat where
  "BLOCKS_PER_YEAR = 10512000"

definition PRECISION :: real where
  "PRECISION = 10 ^ 18"

text \<open>
  A farm contract (PancakeSwap or Biswap MasterChef, Alpaca FairLaunch) as the calculator
  reads it. \<open>poolInfo(pid)\<close> returns a tuple whose component 0 is the pool's address
  and component 1 its allocation points. An exception inside a calculator is re-raised
  as a new exception carrying its message.
\<close>

record pool_info =
  lpToken :: address
  allocPoint :: nat

record farm =
  cakePerBlock :: "nat option"
  bswPerBlock :: "nat option"
  alpacaPerBlock :: "nat option"
  totalAllocPoint :: "nat option"
  poolLength :: "nat option"
  poolInfo :: "nat \<Rightarrow> pool_info option"

text \<open>
  The three lines shared by the emission-weighted calculators, after their guard:
  yearly rewards, their USD value, and the percentage of the pool's TVL.
\<close>

definition emission_rate :: "nat \<Rightarrow> nat \<Rightarrow> nat \<Rightarrow> real \<Rightarrow> real \<Rightarrow> real" where
  "emission_rate per_block total_alloc_points pool_alloc_points price pool_tvl =
     (let yearly_rewards =
            (real per_block * real BLOCKS_PER_YEAR * real pool_alloc_points) / real total_alloc_points;
          yearly_usd = yearly_rewards * price / PRECISION
      in (yearly_usd / pool_tvl) * 100)"

definition calculate_pancake_apr ::
  "nat \<Rightarrow> pool_info \<Rightarrow> farm \<Rightarrow> real \<Rightarrow> real \<Rightarrow> error + real" where
  "calculate_pancake_apr pid pool_info masterchef cake_price pool_tvl =
     (case cakePerBlock masterchef of
        None \<Rightarrow> Inl (Wrapped RpcError)
      | Some cake_per_block \<Rightarrow>
     (case totalAllocPoint masterchef of
        None \<Rightarrow> Inl (Wrapped RpcError)
      | Some total_alloc_points \<Rightarrow>
          if total_alloc_points = 0 \<or> pool_tvl = 0 then Inr 0
          else Inr (emission_rate cake_per_block total_alloc_points (allocPoint pool_info)
                      cake_price pool_tvl)))"

definition calculate_biswap_apr ::
  "nat \<Rightarrow> pool_info \<Rightarrow> farm \<Rightarrow> real \<Rightarrow> real \<Rightarrow> error + real" where
  "calculate_biswap_apr pid pool_info masterchef bsw_price pool_tvl =
     (case bswPerBlock masterchef of
        None \<Rightarrow> Inl (Wrapped RpcError)
      | Some bsw_per_block \<Rightarrow>
     (case totalAllocPoint masterchef of
        None \<Rightarrow> Inl (Wrapped RpcError)
      | Some total_alloc_points \<Rightarrow>
          if total_alloc_points = 0 \<or> pool_tvl = 0 then Inr 0
          else Inr (emission_rate bsw_per_block total_alloc_points (allocPoint pool_info)
                      bsw_price pool_tvl)))"

definition calculate_alpaca_reward_apy ::
  "nat \<Rightarrow> farm \<Rightarrow> real \<Rightarrow> real \<Rightarrow> error + real" where
  "calculate_alpaca_reward_apy pid fairlaunch tvl alpaca_price =
     (case poolInfo fairlaunch pid of
        None \<Rightarrow> Inl (Wrapped RpcError)
      | Some pool_info \<Rightarrow>
     (case totalAllocPoint fairlaunch of
        None \<Rightarrow> Inl (Wrapped RpcError)
      | Some total_alloc_point \<Rightarrow>
     (case alpacaPerBlock fairlaunch of
        None \<Rightarrow> Inl (Wrapped RpcError)
      | Some alpaca_per_block \<Rightarrow>
          if total_alloc_point = 0 \<or> tvl = 0 then Inr 0
          else Inr (emission_rate alpaca_per_block total_alloc_point (allocPoint pool_info)
                      alpaca_price tvl))))"

record market =
  supplyRatePerBlock :: "nat option"
  borrowRatePerBlock :: "nat option"

definition calculate_venus_rates :: "market \<Rightarrow> error + (real \<times> real)" where
  "calculate_venus_rates market_contract =
     (case supplyRatePerBlock market_contract of
        None \<Rightarrow> Inl (Wrapped RpcError)
      | Some supply_rate \<Rightarrow>
     (case borrowRatePerBlock market_contract of
        None \<Rightarrow> Inl (Wrapped RpcError)
      | Some borrow_rate \<Rightarrow>
          Inr (((1 + real supply_rate * real BLOCKS_PER_YEAR / PRECISION) - 1) * 100,
               ((1 + real borrow_rate * real BLOCKS_PER_YEAR / PRECISION) - 1) * 100)))"

record vault =
  totalToken :: "nat option"
  vaultDebtVal :: "nat option"

definition calculate_alpaca_base_apy :: "vault \<Rightarrow> error + real" where
  "calculate_alpaca_base_apy vault_contract =
     (case totalToken vault_contract of
        None \<Rightarrow> Inl (Wrapped RpcError)
      | Some total_token \<Rightarrow>
     (case vaultDebtVal vault_contract of
        None \<Rightarrow> Inl (Wrapped RpcError)
      | Some total_debt \<Rightarrow>
          if total_token = 0 then Inr 0
          else (let utilization = real total_debt / real total_token;
                    lending_apr = utilization * 0.15 * 100
                in Inr lending_apr)))"

section \<open>DataFetcher\<close>

text \<open>
  \<open>get_lending_borrow_rates\<close> logs and re-raises whatever a call raised.
\<close>

definition get_lending_borrow_rates :: "market \<Rightarrow> error + (real \<times> real)" where
  "get_lending_borrow_rates market_contract =
     (case supplyRatePerBlock market_contract of
        None \<Rightarrow> Inl RpcError
      | Some supply_rate \<Rightarrow>
     (case borrowRatePerBlock market_contract of
        None \<Rightarrow> Inl RpcError
      | Some borrow_rate \<Rightarrow>
          (let blocks_per_year = (10512000 :: nat)
           in Inr (((1 + real supply_rate / 10 ^ 18) ^ blocks_per_year - 1) * 100,
                   ((1 + real borrow_rate / 10 ^ 18) ^ blocks_per_year - 1) * 100))))"

section \<open>PriceCalculator\<close>

text \<open>
  The chain as the price calculator reads it: the factory's \<open>getPair\<close>, a pair's
  \<open>getReserves\<close> (its first two components) and a token's \<open>decimals\<close>. Every
  exception inside \<open>_get_token_price_from_pair\<close> is logged and turned into \<open>None\<close>.
  The reserves are taken in the pair's own order: the function never asks the pair which
  of its tokens is \<open>token0\<close>. The source's \<open>_get_token_price_from_pair\<close> is
  \<open>get_token_price_from_pair\<close> here (an identifier cannot start with an underscore).
\<close>

definition WBNB :: address where
  "WBNB = ''0xbb4CdB9CBd36B01bD1cBaEBF2De08d9173bc095c''"

definition BUSD :: address where
  "BUSD = ''0xe9e7CEA3DedcA5984780Bafc599bD69ADd087D56''"

definition ZERO_ADDRESS :: address where
  "ZERO_ADDRESS = ''0x0000000000000000000000000000000000000000''"

record chain =
  getPair :: "address \<Rightarrow> address \<Rightarrow> address option"
  getReserves :: "address \<Rightarrow> (nat \<times> nat) option"
  decimals :: "address \<Rightarrow> nat option"

definition get_token_price_from_pair :: "chain \<Rightarrow> address \<Rightarrow> address \<Rightarrow> real option" where
  "get_token_price_from_pair w3 token0_address token1_address =
     (case getPair w3 token0_address token1_address of
        None \<Rightarrow> None
      | Some pair_address \<Rightarrow>
          if pair_address = ZERO_ADDRESS then None
          else
     (case getReserves w3 pair_address of
        None \<Rightarrow> None
      | Some reserves \<Rightarrow>
     (case decimals w3 token0_address of
        None \<Rightarrow> None
      | Some decimals0 \<Rightarrow>
     (case decimals w3 token1_address of
        None \<Rightarrow> None
      | Some decimals1 \<Rightarrow>
          (let reserve0 = real (fst reserves) / real (10 ^ decimals0);
               reserve1 = real (snd reserves) / real (10 ^ decimals1)
           in if reserve0 = 0 \<or> reserve1 = 0 then None
              else Some (reserve1 / reserve0))))))"

definition get_token_price :: "chain \<Rightarrow> address \<Rightarrow> error + real" where
  "get_token_price w3 token_address =
     (case get_token_price_from_pair w3 token_address BUSD of
        Some busd_price \<Rightarrow> Inr busd_price
      | None \<Rightarrow>
     (case get_token_price_from_pair w3 token_address WBNB of
        None \<Rightarrow> Inl (NoValidPricePath token_address)
      | Some bnb_price \<Rightarrow>
     (case get_token_price_from_pair w3 WBNB BUSD of
        None \<Rightarrow> Inl (NoValidPricePath token_address)
      | Some bnb_busd_price \<Rightarrow> Inr (bnb_price * bnb_busd_price))))"

section \<open>YieldScanner\<close>

text \<open>
  The four protocol scans have one shape: inside a \<open>try\<close>, read the number of pools
  (or the list of markets), start one task per pool, gather the results and keep those
  that are not \<open>None\<close>; the handler logs, and the function returns the list built so
  far, which is still empty when the enumeration raised. Each per-pool function is one
  \<open>try\<close> block ending in \<open>return {...}\<close> with the handler \<open>except Exception: return None\<close>.
  The statements of that block are reads of external collaborators and calls of the
  calculators; their combined outcome for a pool, the dictionary built or the exception
  raised, is a field of the scanner (\<open>pancake_pool_detail\<close> and its siblings), so a
  property proved for every scanner holds for whatever the block does. The type \<open>'d\<close> is
  the dictionary. The source's \<open>_scan_pancakeswap\<close>, \<open>_get_pancake_pool_info\<close> and
  siblings lose their leading underscore here.
\<close>

record comptroller =
  getAllMarkets :: "address list option"

record 'd yield_scanner =
  pancake_masterchef :: farm
  venus_comptroller :: comptroller
  alpaca_fairlaunch :: farm
  biswap_masterchef :: farm
  pancake_pool_detail :: "nat \<Rightarrow> error + 'd"
  venus_market_detail :: "address \<Rightarrow> error + 'd"
  alpaca_pool_detail :: "nat \<Rightarrow> error + 'd"
  biswap_pool_detail :: "nat \<Rightarrow> error + 'd"

definition get_pancake_pool_info :: "'d yield_scanner \<Rightarrow> nat \<Rightarrow> 'd option" where
  "get_pancake_pool_info self pid =
     (case pancake_pool_detail self pid of
        Inr info \<Rightarrow> Some info
      | Inl e \<Rightarrow> None)"

definition get_venus_market_info :: "'d yield_scanner \<Rightarrow> address \<Rightarrow> 'd option" where
  "get_venus_market_info self market_address =
     (case venus_market_detail self market_address of
        Inr info \<Rightarrow> Some info
      | Inl e \<Rightarrow> None)"

definition get_alpaca_pool_info :: "'d yield_scanner \<Rightarrow> nat \<Rightarrow> 'd option" where
  "get_alpaca_pool_info self pid =
     (case alpaca_pool_detail self pid of
        Inr info \<Rightarrow> Some info
      | Inl e \<Rightarrow> None)"

definition get_biswap_pool_info :: "'d yield_scanner \<Rightarrow> nat \<Rightarrow> 'd option" where
  "get_biswap_pool_info self pid =
     (case biswap_pool_detail self pid of
        Inr info \<Rightarrow> Some info
      | Inl e \<Rightarrow> None)"

text \<open>
  The comprehension \<open>[r for r in results if r is not None]\<close>; \<open>gather\<close> returns the
  results in the order of the tasks.
\<close>

fun not_None :: "'d option list \<Rightarrow> 'd list" where
  "not_None [] = []"
| "not_None (None # results) = not_None results"
| "not_None (Some r # results) = r # not_None results"

definition scan_pancakeswap :: "'d yield_scanner \<Rightarrow> 'd list" where
  "scan_pancakeswap self =
     (case poolLength (pancake_masterchef self) of
        None \<Rightarrow> []
      | Some pool_length \<Rightarrow>
          (let tasks = map (get_pancake_pool_info self) [0..<pool_length]
           in [] @ not_None tasks))"

definition scan_venus :: "'d yield_scanner \<Rightarrow> 'd list" where
  "scan_venus self =
     (case getAllMarkets (venus_comptroller self) of
        None \<Rightarrow> []
      | Some markets \<Rightarrow>
          (let tasks = map (get_venus_market_info self) markets
           in [] @ not_None tasks))"

definition scan_alpaca :: "'d yield_scanner \<Rightarrow> 'd list" where
  "scan_alpaca self =
     (case poolLength (alpaca_fairlaunch self) of
        None \<Rightarrow> []
      | Some pool_length \<Rightarrow>
          (let tasks = map (get_alpaca_pool_info self) [0..<pool_length]
           in [] @ not_None tasks))"

definition scan_biswap :: "'d yield_scanner \<Rightarrow> 'd list" where
  "scan_biswap self =
     (case poolLength (biswap_masterchef self) of
        None \<Rightarrow> []
      | Some pool_length \<Rightarrow>
          (let tasks = map (get_biswap_pool_info self) [0..<pool_length]
           in [] @ not_None tasks))"

text \<open>
  Modelled from the spec: the orchestrator that drives every protocol adapter and
  collects the opportunities of all of them (\<open>scan(adapters)\<close> of the specification's
  ScanOrchestrator; \<open>YieldScanner.format_for_trading_agent\<close>, which \<open>YieldStrategy\<close>
  calls for it, is not among the source files). It is the collection step alone:
  the results of the protocol scans, one after the other.
\<close>

definition scan_protocols :: "'d yield_scanner \<Rightarrow> 'd list" where
  "scan_protocols self =
     scan_pancakeswap self @ scan_venus self @ scan_alpaca self @ scan_biswap self"

section \<open>EnhancedTradingAgent and YieldStrategy\<close>

text \<open>
  An opportunity is a dict; the keys the ranking and the filter read are the fields.
  \<open>sorted(xs, key=k, reverse=True)\<close> is stable: CPython reverses the list, sorts it
  stably in ascending order of the key and reverses the result, so elements with equal
  keys keep their original order. \<open>YieldStrategy.scan_opportunities\<close> takes the outcome of
  \<open>format_for_trading_agent\<close> as its argument and answers any exception with the empty
  list; \<open>EnhancedTradingAgent.scan_all_opportunities\<close> takes the outcome of each
  strategy's scan, in the order of the strategies, and has no handler.
\<close>

record metrics =
  protocol_score :: real
  liquidity_score :: real

record opportunity =
  address :: address
  tvl :: real
  expected_roi :: real
  risk_score :: real
  metrics :: metrics

fun filter_opportunities :: "opportunity list \<Rightarrow> opportunity list" where
  "filter_opportunities [] = []"
| "filter_opportunities (opp # opportunities) =
     (if expected_roi opp < 0.15 then filter_opportunities opportunities
      else if risk_score opp > 0.65 then filter_opportunities opportunities
      else if tvl opp < 500000 then filter_opportunities opportunities
      else if protocol_score (metrics opp) < 0.75 then filter_opportunities opportunities
      else if liquidity_score (metrics opp) < 0.6 then filter_opportunities opportunities
      else opp # filter_opportunities opportunities)"

definition sorted_reverse :: "('a \<Rightarrow> real) \<Rightarrow> 'a list \<Rightarrow> 'a list" where
  "sorted_reverse key xs = rev (sort_key key (rev xs))"

definition YieldStrategy_scan_opportunities ::
  "error + opportunity list \<Rightarrow> opportunity list" where
  "YieldStrategy_scan_opportunities format_for_trading_agent =
     (case format_for_trading_agent of
        Inl e \<Rightarrow> []
      | Inr opportunities \<Rightarrow>
          (let filtered_opportunities = filter_opportunities opportunities
           in sorted_reverse expected_roi filtered_opportunities))"

fun extend_all ::
  "(error + opportunity list) list \<Rightarrow> opportunity list \<Rightarrow> error + opportunity list" where
  "extend_all [] all_opportunities = Inr all_opportunities"
| "extend_all (strategy # strategies) all_opportunities =
     (case strategy of
        Inl e \<Rightarrow> Inl e
      | Inr opportunities \<Rightarrow> extend_all strategies (all_opportunities @ opportunities))"

definition scan_all_opportunities ::
  "(error + opportunity list) list \<Rightarrow> error + opportunity list" where
  "scan_all_opportunities strategies =
     (case extend_all strategies [] of
        Inl e \<Rightarrow> Inl e
      | Inr all_opportunities \<Rightarrow> Inr (sorted_reverse expected_roi all_opportunities))"

section \<open>The specification's formulas\<close>

text \<open>
  The compounding formula and the utilization model as the specification words them, and
  the product \<open>price(A,B) * price(B,A)\<close> of two single-pair prices.
\<close>

definition compounded_rate_percent :: "real \<Rightarrow> nat \<Rightarrow> real" where
  "compounded_rate_percent ratePerBlock blocksPerYear =
     100 * ((1 + ratePerBlock) ^ blocksPerYear - 1)"

definition utilization_model_percent :: "real \<Rightarrow> real \<Rightarrow> real \<Rightarrow> real" where
  "utilization_model_percent totalDeposited totalDebt maxLendingRate =
     (totalDeposited - totalDebt) / totalDeposited * maxLendingRate * 100"

definition reciprocity_product :: "chain \<Rightarrow> address \<Rightarrow> address \<Rightarrow> real option" where
  "reciprocity_product w3 a b =
     (case get_token_price_from_pair w3 a b of
        None \<Rightarrow> None
      | Some price_ab \<Rightarrow>
     (case get_token_price_from_pair w3 b a of
        None \<Rightarrow> None
      | Some price_ba \<Rightarrow> Some (price_ab * price_ba)))"

text \<open>
  The daily returns and the standard deviation of the volatility claim, the order of the
  ranking claim (ROI descending, then risk ascending, then address), and the successful
  outcomes of a batch, in order.
\<close>

definition dailyReturns :: "real list \<Rightarrow> real list" where
  "dailyReturns prices =
     map (\<lambda>i. (prices ! Suc i - prices ! i) / prices ! i) [0..<length prices - 1]"

definition stdev :: "real list \<Rightarrow> real" where
  "stdev xs =
     (let mean = (\<Sum>x\<leftarrow>xs. x) / real (length xs)
      in sqrt ((\<Sum>x\<leftarrow>xs. (x - mean) ^ 2) / real (length xs)))"

definition ranked_before :: "opportunity \<Rightarrow> opportunity \<Rightarrow> bool" where
  "ranked_before x y \<longleftrightarrow>
     expected_roi x > expected_roi y
     \<or> (expected_roi x = expected_roi y
        \<and> (risk_score x < risk_score y
           \<or> (risk_score x = risk_score y \<and> address x \<le> address y)))"

definition successes :: "(error + 'd) list \<Rightarrow> 'd list" where
  "successes outcomes = map projr (filter (\<lambda>r. \<not> isl r) outcomes)"

section \<open>Concrete inputs\<close>

definition opp_a :: opportunity where
  "opp_a = \<lparr>address = ''0xAA'', tvl = 1000000, expected_roi = 0.2, risk_score = 0.5,
            metrics = \<lparr>protocol_score = 0.9, liquidity_score = 0.8\<rparr>\<rparr>"

definition opp_b :: opportunity where
  "opp_b = \<lparr>address = ''0xBB'', tvl = 2000000, expected_roi = 0.2, risk_score = 0.1,
            metrics = \<lparr>protocol_score = 0.9, liquidity_score = 0.8\<rparr>\<rparr>"

definition no_farm :: farm where
  "no_farm = \<lparr>cakePerBlock = None, bswPerBlock = None, alpacaPerBlock = None,
               totalAllocPoint = None, poolLength = None, poolInfo = (\<lambda>pid. None)\<rparr>"

definition farm3 :: farm where
  "farm3 = \<lparr>cakePerBlock = Some 40, bswPerBlock = None, alpacaPerBlock = None,
             totalAllocPoint = Some 100, poolLength = Some 3,
             poolInfo = (\<lambda>pid. Some \<lparr>lpToken = ''0xA1'', allocPoint = 10\<rparr>)\<rparr>"

definition biswap_farm2 :: farm where
  "biswap_farm2 = \<lparr>cakePerBlock = None, bswPerBlock = Some 30, alpacaPerBlock = None,
     totalAllocPoint = Some 100, poolLength = Some 2,
     poolInfo = (\<lambda>pid. Some \<lparr>lpToken = ''0xB1'', allocPoint = 10\<rparr>)\<rparr>"

definition alpaca_farm2 :: farm where
  "alpaca_farm2 = \<lparr>cakePerBlock = None, bswPerBlock = None, alpacaPerBlock = Some 20,
     totalAllocPoint = Some 100, poolLength = Some 2,
     poolInfo = (\<lambda>pid. Some \<lparr>lpToken = ''0xC1'', allocPoint = 10\<rparr>)\<rparr>"

definition pancake_down :: "string yield_scanner" where
  "pancake_down =
     \<lparr>pancake_masterchef = no_farm,
      venus_comptroller = \<lparr>getAllMarkets = Some [''0xV1'', ''0xV2'']\<rparr>,
      alpaca_fairlaunch = no_farm,
      biswap_masterchef = biswap_farm2,
      pancake_pool_detail = (\<lambda>pid. Inl RpcError),
      venus_market_detail = (\<lambda>m. if m = ''0xV1'' then Inl RpcError else Inr ''vBNB''),
      alpaca_pool_detail = (\<lambda>pid. Inl RpcError),
      biswap_pool_detail = (\<lambda>pid. if pid = 0 then Inr ''bsw0'' else Inl RpcError)\<rparr>"

definition one_bad_pool :: "string yield_scanner" where
  "one_bad_pool =
     \<lparr>pancake_masterchef = farm3,
      venus_comptroller = \<lparr>getAllMarkets = None\<rparr>,
      alpaca_fairlaunch = alpaca_farm2,
      biswap_masterchef = no_farm,
      pancake_pool_detail =
        (\<lambda>pid. if pid = 1 then Inl (NoValidPricePath ''0xT'')
               else if pid = 0 then Inr ''pool0'' else Inr ''pool2''),
      venus_market_detail = (\<lambda>m. Inl RpcError),
      alpaca_pool_detail = (\<lambda>pid. if pid = 0 then Inl (Wrapped RpcError) else Inr ''alp1''),
      biswap_pool_detail = (\<lambda>pid. Inl RpcError)\<rparr>"

definition pancake_idle :: farm where
  "pancake_idle = \<lparr>cakePerBlock = Some (40 * 10 ^ 18), bswPerBlock = None,
     alpacaPerBlock = None, totalAllocPoint = Some 0, poolLength = Some 1,
     poolInfo = (\<lambda>pid. Some \<lparr>lpToken = ''0xA1'', allocPoint = 0\<rparr>)\<rparr>"

definition biswap_idle :: farm where
  "biswap_idle = \<lparr>cakePerBlock = None, bswPerBlock = Some (30 * 10 ^ 18),
     alpacaPerBlock = None, totalAllocPoint = Some 0, poolLength = Some 1,
     poolInfo = (\<lambda>pid. Some \<lparr>lpToken = ''0xB1'', allocPoint = 0\<rparr>)\<rparr>"

definition alpaca_idle :: farm where
  "alpaca_idle = \<lparr>cakePerBlock = None, bswPerBlock = None,
     alpacaPerBlock = Some (20 * 10 ^ 18), totalAllocPoint = Some 0, poolLength = Some 1,
     poolInfo = (\<lambda>pid. Some \<lparr>lpToken = ''0xC1'', allocPoint = 0\<rparr>)\<rparr>"

definition busy_market :: market where
  "busy_market = \<lparr>supplyRatePerBlock = Some (10 ^ 10), borrowRatePerBlock = Some (2 * 10 ^ 10)\<rparr>"

definition no_pairs :: chain where
  "no_pairs = \<lparr>getPair = (\<lambda>a b. Some ZERO_ADDRESS), getReserves = (\<lambda>p. None),
               decimals = (\<lambda>t. Some 18)\<rparr>"

definition one_pair :: chain where
  "one_pair = \<lparr>getPair = (\<lambda>a b. if (a = ''0xA'' \<and> b = ''0xB'') \<or> (a = ''0xB'' \<and> b = ''0xA'') then Some ''0xP'' else Some ZERO_ADDRESS),
                getReserves = (\<lambda>p. if p = ''0xP'' then Some (2 * 10 ^ 18, 10 ^ 18) else None),
                decimals = (\<lambda>t. Some 18)\<rparr>"

section \<open>Properties of the risk calculator\<close>

text \<open>
  Claim C8. \<open>calculate_tvl_risk\<close> is 0.1 at 10\,000\,001 and at 10\,000\,000, 0.3 at
  9\,999\,999 and 0.9 at 0; for every TVL that is not negative it is the risk of the
  highest threshold of the table 10M, 5M, 1M, 500K that the TVL meets or exceeds
  (boundaries included), and 0.9 below all of them.
\<close>

theorem calculate_tvl_risk_table:
  assumes "0 \<le> v"
  shows "calculate_tvl_risk 10000001 = 0.1
       \<and> calculate_tvl_risk 10000000 = 0.1
       \<and> calculate_tvl_risk 9999999 = 0.3
       \<and> calculate_tvl_risk 0 = 0.9
       \<and> calculate_tvl_risk v =
           (if v \<ge> 10000000 then 0.1
            else if v \<ge> 5000000 then 0.3
            else if v \<ge> 1000000 then 0.5
            else if v \<ge> 500000 then 0.7
            else 0.9)"
  using assms by (simp add: calculate_tvl_risk_def TVL_THRESHOLDS_def)

theorem calculate_tvl_risk_table_witness:
  "(0::real) \<le> 7000000 \<and> calculate_tvl_risk 7000000 = 0.3"
  using calculate_tvl_risk_table [of 7000000] by simp

text \<open>
  Claim C4. With the five inputs in \<open>[0,1]\<close> and the default weights, the composite score
  is \<open>0.25*tvl + 0.20*volatility + 0.15*age + 0.20*il + 0.20*(1 - protocol)\<close>, the
  protocol factor inverted; and for every weight table whatsoever the returned score is
  clamped into \<open>[0,1]\<close>.
\<close>

theorem calculate_composite_risk_score_formula:
  assumes "0 \<le> t" "t \<le> 1" "0 \<le> v" "v \<le> 1" "0 \<le> a" "a \<le> 1"
      and "0 \<le> i" "i \<le> 1" "0 \<le> p" "p \<le> 1"
  shows "calculate_composite_risk_score RISK_WEIGHTS t v a i p =
           0.25 * t + 0.20 * v + 0.15 * a + 0.20 * i + 0.20 * (1 - p)
       \<and> 0 \<le> calculate_composite_risk_score W t v a i p
       \<and> calculate_composite_risk_score W t v a i p \<le> 1"
proof -
  let ?c = "0.25 * t + 0.20 * v + 0.15 * a + 0.20 * i + 0.20 * (1 - p)"
  have lo: "0 \<le> ?c" using assms by simp
  have hi: "?c \<le> 1" using assms by (simp add: field_simps)
  have "calculate_composite_risk_score RISK_WEIGHTS t v a i p = min 1 (max 0 ?c)"
    by (simp add: calculate_composite_risk_score_def RISK_WEIGHTS_def Let_def algebra_simps)
  also have "\<dots> = ?c" using lo hi by (simp add: min_def max_def)
  finally have formula: "calculate_composite_risk_score RISK_WEIGHTS t v a i p = ?c" .
  have "0 \<le> calculate_composite_risk_score W t v a i p"
    and "calculate_composite_risk_score W t v a i p \<le> 1"
    by (simp_all add: calculate_composite_risk_score_def Let_def)
  with formula show ?thesis by simp
qed

theorem calculate_composite_risk_score_formula_witness:
  "calculate_composite_risk_score RISK_WEIGHTS 0.3 0.5 0.4 0 0.9 = 0.255
   \<and> calculate_composite_risk_score \<lparr>w_tvl = 2, w_volatility = 2, w_age = 2, w_il = 2, w_protocol = 2\<rparr>
        0.3 0.5 0.4 0 0.9 \<le> 1"
  using calculate_composite_risk_score_formula
          [of "0.3" "0.5" "0.4" 0 "0.9" "\<lparr>w_tvl = 2, w_volatility = 2, w_age = 2, w_il = 2, w_protocol = 2\<rparr>"]
  by simp

text \<open>
  The model's returns are the daily returns \<open>(p[i+1] - p[i]) / p[i]\<close>, and numpy's
  standard deviation is the population standard deviation.
\<close>

lemma np_diff_length: "length (np_diff xs) = length xs - 1"
  by (induction xs rule: np_diff.induct) simp_all

lemma np_diff_nth: "i < length xs - 1 \<Longrightarrow> np_diff xs ! i = xs ! Suc i - xs ! i"
proof (induction xs arbitrary: i rule: np_diff.induct)
  case (1 x y rest)
  then show ?case by (cases i) simp_all
qed simp_all

lemma returns_eq_dailyReturns:
  "map2 (\<lambda>d p. d / p) (np_diff xs) (butlast xs) = dailyReturns xs"
  by (rule nth_equalityI)
     (simp_all add: dailyReturns_def np_diff_length np_diff_nth nth_butlast)

lemma np_std_eq_stdev: "np_std xs = stdev xs"
  by (simp add: np_std_def stdev_def np_mean_def Let_def)

lemma stdev_nonneg: "0 \<le> stdev xs"
proof -
  have "0 \<le> (\<Sum>x\<leftarrow>xs. (x - m) ^ 2)" for m :: real
    by (rule sum_list_nonneg) auto
  then show ?thesis
    by (simp add: stdev_def Let_def)
qed

text \<open>
  Claim C10. For a price history with fewer than two entries \<open>calculate_pool_volatility\<close>
  returns exactly 0; for at least two positive prices it returns
  \<open>min(1, stdev(dailyReturns) * sqrt(365))\<close>, which lies in \<open>[0,1]\<close>.
\<close>

theorem calculate_pool_volatility_spec:
  "(length ph < 2 \<longrightarrow> calculate_pool_volatility ph = 0)
   \<and> (2 \<le> length ph \<and> (\<forall>p \<in> set ph. 0 < p) \<longrightarrow>
        calculate_pool_volatility ph = min 1 (stdev (dailyReturns ph) * sqrt 365)
        \<and> 0 \<le> calculate_pool_volatility ph \<and> calculate_pool_volatility ph \<le> 1)"
proof -
  have "0 \<le> stdev (dailyReturns ph) * sqrt 365"
    using stdev_nonneg by simp
  then show ?thesis
    by (simp add: calculate_pool_volatility_def Let_def returns_eq_dailyReturns np_std_eq_stdev)
qed

text \<open>
  A history that doubles and halves again: the returns are 1 and \<open>-1/2\<close>, their
  standard deviation is \<open>3/4\<close>, and the annualized value saturates at 1.
\<close>

lemma dailyReturns_swing: "dailyReturns [1, 2, 1] = [1, - (1 / 2)]"
  by (simp add: dailyReturns_def upt_rec)

lemma stdev_swing: "stdev [1, - (1 / 2)] = 3 / 4"
proof -
  have "stdev [1, - (1 / 2)] = sqrt ((3 / 4)\<^sup>2)"
    by (simp add: stdev_def Let_def power2_eq_square)
  then show ?thesis by (simp del: real_sqrt_abs add: real_sqrt_abs)
qed

lemma sqrt_365_lower: "4 / 3 \<le> sqrt 365"
proof -
  have "sqrt ((4 / 3)\<^sup>2) \<le> sqrt 365"
    by (rule real_sqrt_le_mono) (simp add: power2_eq_square)
  then show ?thesis by simp
qed

theorem calculate_pool_volatility_spec_witness:
  "calculate_pool_volatility [] = 0
   \<and> calculate_pool_volatility [5] = 0
   \<and> calculate_pool_volatility [1, 2, 1] = 1"
  using calculate_pool_volatility_spec [of "[]"] calculate_pool_volatility_spec [of "[5]"]
        calculate_pool_volatility_spec [of "[1, 2, 1]"] sqrt_365_lower
  by (simp add: dailyReturns_swing stdev_swing)

section \<open>Properties of the APR calculator\<close>

text \<open>
  Claim C2. Each emission-weighted calculator, taken on its own contract and under the
  reads that calculator itself makes, returns exactly 0 for non-negative inputs when the
  total allocation weight is 0 or the pool TVL is 0: \<open>calculate_pancake_apr\<close> reads
  \<open>cakePerBlock\<close> and \<open>totalAllocPoint\<close>, \<open>calculate_biswap_apr\<close> reads \<open>bswPerBlock\<close>
  and \<open>totalAllocPoint\<close>, \<open>calculate_alpaca_reward_apy\<close> reads \<open>poolInfo\<close>,
  \<open>totalAllocPoint\<close> and \<open>alpacaPerBlock\<close>. The guard precedes every division.
\<close>

theorem emission_rates_zero_guard:
  "(cakePerBlock masterchef = Some cake_per_block
      \<and> totalAllocPoint masterchef = Some cake_total
      \<and> 0 \<le> cake_price \<and> 0 \<le> cake_tvl
      \<and> (cake_total = 0 \<or> cake_tvl = 0)
      \<longrightarrow> calculate_pancake_apr cake_pid cake_pool masterchef cake_price cake_tvl = Inr 0)
   \<and> (bswPerBlock biswap = Some bsw_per_block
      \<and> totalAllocPoint biswap = Some bsw_total
      \<and> 0 \<le> bsw_price \<and> 0 \<le> bsw_tvl
      \<and> (bsw_total = 0 \<or> bsw_tvl = 0)
      \<longrightarrow> calculate_biswap_apr bsw_pid bsw_pool biswap bsw_price bsw_tvl = Inr 0)
   \<and> (poolInfo fairlaunch alpaca_pid = Some alpaca_pool
      \<and> totalAllocPoint fairlaunch = Some alpaca_total
      \<and> alpacaPerBlock fairlaunch = Some alpaca_per_block
      \<and> 0 \<le> alpaca_price \<and> 0 \<le> alpaca_tvl
      \<and> (alpaca_total = 0 \<or> alpaca_tvl = 0)
      \<longrightarrow> calculate_alpaca_reward_apy alpaca_pid fairlaunch alpaca_tvl alpaca_price = Inr 0)"
  by (auto simp add: calculate_pancake_apr_def calculate_biswap_apr_def
        calculate_alpaca_reward_apy_def)

text \<open>
  The witness takes each calculator on a farm of its own protocol, which answers none of
  the other protocols' getters: once with a total allocation weight of 0 and a positive
  TVL, once with a positive total allocation weight and a TVL of 0.
\<close>

theorem emission_rates_zero_guard_witness:
  "calculate_pancake_apr 0 \<lparr>lpToken = ''0xA1'', allocPoint = 0\<rparr> pancake_idle 2.5 1000 = Inr 0
   \<and> calculate_biswap_apr 0 \<lparr>lpToken = ''0xB1'', allocPoint = 0\<rparr> biswap_idle 0.5 1000 = Inr 0
   \<and> calculate_alpaca_reward_apy 0 alpaca_idle 1000 0.25 = Inr 0
   \<and> calculate_pancake_apr 2 \<lparr>lpToken = ''0xA1'', allocPoint = 10\<rparr> farm3 2.5 0 = Inr 0
   \<and> calculate_biswap_apr 1 \<lparr>lpToken = ''0xB1'', allocPoint = 10\<rparr> biswap_farm2 0.5 0 = Inr 0
   \<and> calculate_alpaca_reward_apy 1 alpaca_farm2 0 0.25 = Inr 0"
  using emission_rates_zero_guard
          [where masterchef = pancake_idle and cake_per_block = "40 * 10 ^ 18" and cake_total = 0
             and cake_price = "2.5" and cake_tvl = 1000 and cake_pid = 0
             and cake_pool = "\<lparr>lpToken = ''0xA1'', allocPoint = 0\<rparr>"
             and biswap = biswap_idle and bsw_per_block = "30 * 10 ^ 18" and bsw_total = 0
             and bsw_price = "0.5" and bsw_tvl = 1000 and bsw_pid = 0
             and bsw_pool = "\<lparr>lpToken = ''0xB1'', allocPoint = 0\<rparr>"
             and fairlaunch = alpaca_idle and alpaca_pid = 0
             and alpaca_pool = "\<lparr>lpToken = ''0xC1'', allocPoint = 0\<rparr>"
             and alpaca_total = 0 and alpaca_per_block = "20 * 10 ^ 18"
             and alpaca_price = "0.25" and alpaca_tvl = 1000]
        emission_rates_zero_guard
          [where masterchef = farm3 and cake_per_block = 40 and cake_total = 100
             and cake_price = "2.5" and cake_tvl = 0 and cake_pid = 2
             and cake_pool = "\<lparr>lpToken = ''0xA1'', allocPoint = 10\<rparr>"
             and biswap = biswap_farm2 and bsw_per_block = 30 and bsw_total = 100
             and bsw_price = "0.5" and bsw_tvl = 0 and bsw_pid = 1
             and bsw_pool = "\<lparr>lpToken = ''0xB1'', allocPoint = 10\<rparr>"
             and fairlaunch = alpaca_farm2 and alpaca_pid = 1
             and alpaca_pool = "\<lparr>lpToken = ''0xC1'', allocPoint = 10\<rparr>"
             and alpaca_total = 100 and alpaca_per_block = 20
             and alpaca_price = "0.25" and alpaca_tvl = 0]
  by (simp add: pancake_idle_def biswap_idle_def alpaca_idle_def farm3_def biswap_farm2_def
        alpaca_farm2_def)

text \<open>
  Bernoulli's inequality, strict from the second power on: simple interest stays below
  compound interest.
\<close>

lemma bernoulli_strict:
  fixes x :: real
  assumes "0 < x"
  shows "1 + real (Suc (Suc n)) * x < (1 + x) ^ Suc (Suc n)"
proof (induction n)
  case 0
  have "(1 + x) ^ Suc (Suc 0) = 1 + 2 * x + x * x" by (simp add: algebra_simps)
  moreover have "0 < x * x" using assms by simp
  ultimately show ?case by simp
next
  case (Suc n)
  have "1 + real (Suc (Suc (Suc n))) * x \<le> (1 + real (Suc (Suc n)) * x) * (1 + x)"
    using assms by (simp add: algebra_simps)
  also have "\<dots> < (1 + x) ^ Suc (Suc n) * (1 + x)"
    using Suc assms by (simp del: power_Suc of_nat_Suc)
  finally show ?case by (simp add: mult.commute)
qed

lemma linear_below_compounded:
  fixes r :: real
  assumes "0 < r" "2 \<le> n"
  shows "((1 + r * real n) - 1) * 100 < compounded_rate_percent r n"
proof -
  obtain m where n: "n = Suc (Suc m)"
    using assms(2) by (metis Suc_le_D numeral_2_eq_2 Suc_le_mono)
  have "1 + real n * r < (1 + r) ^ n"
    unfolding n using assms(1) by (rule bernoulli_strict)
  then show ?thesis
    by (simp add: compounded_rate_percent_def mult.commute)
qed

text \<open>
  Claim C5, evaluated on the code. For a market whose raw supply rate is \<open>10^10\<close> and
  raw borrow rate \<open>2 * 10^10\<close> (\<open>1e-8\<close> and \<open>2e-8\<close> per block after the \<open>1e18\<close>
  normalization), \<open>calculate_venus_rates\<close> returns the simple-interest values 10.512 and
  21.024, which are strictly below the compounded values \<open>100 * ((1 + r)^10512000 - 1)\<close>.
\<close>

theorem calculate_venus_rates_not_compounded:
  "calculate_venus_rates busy_market = Inr (10.512, 21.024)
   \<and> 10.512 < compounded_rate_percent (10 ^ 10 / 10 ^ 18) BLOCKS_PER_YEAR
   \<and> 21.024 < compounded_rate_percent (2 * 10 ^ 10 / 10 ^ 18) BLOCKS_PER_YEAR"
proof -
  have n: "2 \<le> BLOCKS_PER_YEAR" by (simp add: BLOCKS_PER_YEAR_def)
  have r: "real BLOCKS_PER_YEAR = 10512000" by (simp add: BLOCKS_PER_YEAR_def)
  have v: "calculate_venus_rates busy_market = Inr (10.512, 21.024)"
    by (simp add: calculate_venus_rates_def busy_market_def r PRECISION_def)
  have a: "10.512 < compounded_rate_percent (10 ^ 10 / 10 ^ 18) BLOCKS_PER_YEAR"
    using linear_below_compounded [of "10 ^ 10 / 10 ^ 18" BLOCKS_PER_YEAR] n by (simp add: r)
  have b: "21.024 < compounded_rate_percent (2 * 10 ^ 10 / 10 ^ 18) BLOCKS_PER_YEAR"
    using linear_below_compounded [of "2 * 10 ^ 10 / 10 ^ 18" BLOCKS_PER_YEAR] n by (simp add: r)
  from v a b show ?thesis by simp
qed


text \<open>
  The sibling \<open>DataFetcher.get_lending_borrow_rates\<close> does compound.
\<close>

lemma get_lending_borrow_rates_compounds:
  assumes "supplyRatePerBlock m = Some s" "borrowRatePerBlock m = Some b"
  shows "get_lending_borrow_rates m =
           Inr (compounded_rate_percent (real s / 10 ^ 18) BLOCKS_PER_YEAR,
                compounded_rate_percent (real b / 10 ^ 18) BLOCKS_PER_YEAR)"
  using assms
  by (simp add: get_lending_borrow_rates_def compounded_rate_percent_def BLOCKS_PER_YEAR_def Let_def)

text \<open>
  Claim C6, evaluated on the code. For a vault with 100 deposited and 25 of debt,
  \<open>calculate_alpaca_base_apy\<close> returns \<open>25 / 100 * 15 = 3.75\<close>, the borrowed share times
  the ceiling, where the utilization model of the claim gives \<open>(100 - 25) / 100 * 15 = 11.25\<close>.
\<close>

theorem calculate_alpaca_base_apy_debt_share:
  "calculate_alpaca_base_apy \<lparr>totalToken = Some 100, vaultDebtVal = Some 25\<rparr> = Inr 3.75
   \<and> utilization_model_percent 100 25 0.15 = 11.25"
  by (simp add: calculate_alpaca_base_apy_def utilization_model_percent_def)

section \<open>Properties of the price calculator\<close>

text \<open>
  Claim C3, as stated, fails: on a chain where the factory knows no pair at all,
  \<open>get_token_price\<close> raises; it has no return value for an unresolved price.
\<close>

theorem get_token_price_raises_example:
  "get_token_price no_pairs ''0xT0'' = Inl (NoValidPricePath ''0xT0'')
   \<and> isl (get_token_price no_pairs ''0xT0'')"
  by (simp add: get_token_price_def get_token_price_from_pair_def no_pairs_def)

text \<open>
  Claim C3, amended. For every token with no direct BUSD pair and no two-hop path through
  WBNB (the factory answers the zero address), \<open>get_token_price\<close> raises the exception
  "No valid price path found"; the explicit not-found value \<open>None\<close> exists one level
  down, in \<open>_get_token_price_from_pair\<close>.
\<close>

theorem get_token_price_no_path_raises:
  assumes "getPair w3 t BUSD = Some ZERO_ADDRESS"
      and "getPair w3 t WBNB = Some ZERO_ADDRESS \<or> getPair w3 WBNB BUSD = Some ZERO_ADDRESS"
  shows "get_token_price w3 t = Inl (NoValidPricePath t)
       \<and> get_token_price_from_pair w3 t BUSD = None"
  using assms
  by (auto simp add: get_token_price_def get_token_price_from_pair_def split: option.splits)

theorem get_token_price_no_path_raises_witness:
  "get_token_price no_pairs ''0xT1'' = Inl (NoValidPricePath ''0xT1'')
   \<and> get_token_price_from_pair no_pairs ''0xT1'' BUSD = None"
  using get_token_price_no_path_raises [of no_pairs "''0xT1''"]
  by (simp add: no_pairs_def)

text \<open>
  Claim C7, evaluated on the code. One pair of two 18-decimal tokens with reserves
  \<open>2 * 10^18\<close> and \<open>10^18\<close>, both nonzero: the price of A in B and the price of B in A
  are both \<open>1/2\<close>, because both calls divide the pair's second reserve by its first,
  so their product is \<open>1/4\<close> and not 1.
\<close>

theorem pair_price_not_reciprocal:
  "get_token_price_from_pair one_pair ''0xA'' ''0xB'' = Some (1 / 2)
   \<and> get_token_price_from_pair one_pair ''0xB'' ''0xA'' = Some (1 / 2)
   \<and> reciprocity_product one_pair ''0xA'' ''0xB'' = Some (1 / 4)"
  by (simp add: reciprocity_product_def get_token_price_from_pair_def one_pair_def ZERO_ADDRESS_def)

section \<open>Properties of the scan\<close>

lemma not_None_successes:
  "not_None (map (\<lambda>x. case f x of Inr info \<Rightarrow> Some info | Inl e \<Rightarrow> None) xs)
     = successes (map f xs)"
  by (induction xs) (auto simp add: successes_def split: sum.splits)

text \<open>
  The successful outcomes are those and only those an outcome list holds, and each of
  the four scans is the empty list when its enumeration raised and the successful
  outcomes of its pools, in order, when it did not.
\<close>

lemma set_successes: "set (successes outcomes) = {info. Inr info \<in> set outcomes}"
proof -
  have "info \<in> set (successes outcomes) \<longleftrightarrow> Inr info \<in> set outcomes" for info
  proof (induction outcomes)
    case Nil
    then show ?case by (simp add: successes_def)
  next
    case (Cons r rs)
    then show ?case by (cases r) (auto simp add: successes_def)
  qed
  then show ?thesis by auto
qed

lemma scan_pancakeswap_eq:
  "scan_pancakeswap self =
     (case poolLength (pancake_masterchef self) of
        None \<Rightarrow> []
      | Some n \<Rightarrow> successes (map (pancake_pool_detail self) [0..<n]))"
  using not_None_successes [of "pancake_pool_detail self"]
  by (simp add: scan_pancakeswap_def get_pancake_pool_info_def [abs_def] split: option.splits)

lemma scan_venus_eq:
  "scan_venus self =
     (case getAllMarkets (venus_comptroller self) of
        None \<Rightarrow> []
      | Some markets \<Rightarrow> successes (map (venus_market_detail self) markets))"
  using not_None_successes [of "venus_market_detail self"]
  by (simp add: scan_venus_def get_venus_market_info_def [abs_def] split: option.splits)

lemma scan_alpaca_eq:
  "scan_alpaca self =
     (case poolLength (alpaca_fairlaunch self) of
        None \<Rightarrow> []
      | Some n \<Rightarrow> successes (map (alpaca_pool_detail self) [0..<n]))"
  using not_None_successes [of "alpaca_pool_detail self"]
  by (simp add: scan_alpaca_def get_alpaca_pool_info_def [abs_def] split: option.splits)

lemma scan_biswap_eq:
  "scan_biswap self =
     (case poolLength (biswap_masterchef self) of
        None \<Rightarrow> []
      | Some n \<Rightarrow> successes (map (biswap_pool_detail self) [0..<n]))"
  using not_None_successes [of "biswap_pool_detail self"]
  by (simp add: scan_biswap_def get_biswap_pool_info_def [abs_def] split: option.splits)


text \<open>
  Claim C9. For each of the four protocols alike: when its enumeration raises, its scan
  contributes the empty list; when its enumeration succeeds, its scan returns the
  dictionaries of exactly the pools whose detail was fetched, in order. A pool whose
  fetch raises yields the per-item \<open>None\<close> and a pool whose fetch returns yields its
  dictionary; a failed outcome anywhere in a batch removes nothing else from it, and a
  successful one is kept in its place. The collected result is the four scans one after
  the other, so a protocol that fails entirely leaves the others' opportunities intact.
\<close>

theorem scan_partial_failure:
  "(poolLength (pancake_masterchef self) = None \<longrightarrow> scan_pancakeswap self = [])
   \<and> (getAllMarkets (venus_comptroller self) = None \<longrightarrow> scan_venus self = [])
   \<and> (poolLength (alpaca_fairlaunch self) = None \<longrightarrow> scan_alpaca self = [])
   \<and> (poolLength (biswap_masterchef self) = None \<longrightarrow> scan_biswap self = [])
   \<and> (poolLength (pancake_masterchef self) = Some pancake_length \<longrightarrow>
        scan_pancakeswap self = successes (map (pancake_pool_detail self) [0..<pancake_length]))
   \<and> (getAllMarkets (venus_comptroller self) = Some markets \<longrightarrow>
        scan_venus self = successes (map (venus_market_detail self) markets))
   \<and> (poolLength (alpaca_fairlaunch self) = Some alpaca_length \<longrightarrow>
        scan_alpaca self = successes (map (alpaca_pool_detail self) [0..<alpaca_length]))
   \<and> (poolLength (biswap_masterchef self) = Some biswap_length \<longrightarrow>
        scan_biswap self = successes (map (biswap_pool_detail self) [0..<biswap_length]))
   \<and> get_pancake_pool_info self pid =
        (case pancake_pool_detail self pid of Inl e \<Rightarrow> None | Inr info \<Rightarrow> Some info)
   \<and> get_venus_market_info self market =
        (case venus_market_detail self market of Inl e \<Rightarrow> None | Inr info \<Rightarrow> Some info)
   \<and> get_alpaca_pool_info self pid =
        (case alpaca_pool_detail self pid of Inl e \<Rightarrow> None | Inr info \<Rightarrow> Some info)
   \<and> get_biswap_pool_info self pid =
        (case biswap_pool_detail self pid of Inl e \<Rightarrow> None | Inr info \<Rightarrow> Some info)
   \<and> set (successes outcomes) = {info. Inr info \<in> set outcomes}
   \<and> successes (before @ Inl e # after) = successes (before @ after)
   \<and> successes (before @ Inr info # after) = successes before @ info # successes after
   \<and> scan_protocols self =
        scan_pancakeswap self @ scan_venus self @ scan_alpaca self @ scan_biswap self"
proof -
  have "poolLength (pancake_masterchef self) = None \<longrightarrow> scan_pancakeswap self = []"
    by (simp add: scan_pancakeswap_eq)
  moreover have "getAllMarkets (venus_comptroller self) = None \<longrightarrow> scan_venus self = []"
    by (simp add: scan_venus_eq)
  moreover have "poolLength (alpaca_fairlaunch self) = None \<longrightarrow> scan_alpaca self = []"
    by (simp add: scan_alpaca_eq)
  moreover have "poolLength (biswap_masterchef self) = None \<longrightarrow> scan_biswap self = []"
    by (simp add: scan_biswap_eq)
  moreover have "poolLength (pancake_masterchef self) = Some pancake_length \<longrightarrow>
        scan_pancakeswap self = successes (map (pancake_pool_detail self) [0..<pancake_length])"
    by (simp add: scan_pancakeswap_eq)
  moreover have "getAllMarkets (venus_comptroller self) = Some markets \<longrightarrow>
        scan_venus self = successes (map (venus_market_detail self) markets)"
    by (simp add: scan_venus_eq)
  moreover have "poolLength (alpaca_fairlaunch self) = Some alpaca_length \<longrightarrow>
        scan_alpaca self = successes (map (alpaca_pool_detail self) [0..<alpaca_length])"
    by (simp add: scan_alpaca_eq)
  moreover have "poolLength (biswap_masterchef self) = Some biswap_length \<longrightarrow>
        scan_biswap self = successes (map (biswap_pool_detail self) [0..<biswap_length])"
    by (simp add: scan_biswap_eq)
  moreover have "get_pancake_pool_info self pid =
        (case pancake_pool_detail self pid of Inl e \<Rightarrow> None | Inr info \<Rightarrow> Some info)"
    by (simp add: get_pancake_pool_info_def split: sum.splits)
  moreover have "get_venus_market_info self market =
        (case venus_market_detail self market of Inl e \<Rightarrow> None | Inr info \<Rightarrow> Some info)"
    by (simp add: get_venus_market_info_def split: sum.splits)
  moreover have "get_alpaca_pool_info self pid =
        (case alpaca_pool_detail self pid of Inl e \<Rightarrow> None | Inr info \<Rightarrow> Some info)"
    by (simp add: get_alpaca_pool_info_def split: sum.splits)
  moreover have "get_biswap_pool_info self pid =
        (case biswap_pool_detail self pid of Inl e \<Rightarrow> None | Inr info \<Rightarrow> Some info)"
    by (simp add: get_biswap_pool_info_def split: sum.splits)
  moreover have "set (successes outcomes) = {info. Inr info \<in> set outcomes}"
    by (rule set_successes)
  moreover have "successes (before @ Inl e # after) = successes (before @ after)"
    by (simp add: successes_def)
  moreover have "successes (before @ Inr info # after) = successes before @ info # successes after"
    by (simp add: successes_def)
  moreover have "scan_protocols self =
        scan_pancakeswap self @ scan_venus self @ scan_alpaca self @ scan_biswap self"
    by (simp add: scan_protocols_def)
  ultimately show ?thesis by (intro conjI)
qed


text \<open>
  The witness: a scanner whose PancakeSwap and Alpaca enumerations raise while Venus
  (one market of two failing) and Biswap (one pool of two failing) answer, and a scanner
  whose Venus and Biswap enumerations raise while PancakeSwap (the middle pool of three
  failing) and Alpaca (the first pool of two failing) answer.
\<close>

theorem scan_partial_failure_witness:
  "scan_protocols pancake_down = [''vBNB'', ''bsw0'']
   \<and> scan_protocols one_bad_pool = [''pool0'', ''pool2'', ''alp1'']
   \<and> get_pancake_pool_info one_bad_pool 1 = None
   \<and> get_venus_market_info pancake_down ''0xV2'' = Some ''vBNB''"
proof -
  note down = scan_partial_failure
          [where self = pancake_down and markets = "[''0xV1'', ''0xV2'']" and biswap_length = 2
             and pancake_length = 0 and alpaca_length = 0
             and pid = 1 and market = "''0xV2''" and outcomes = "[]" and before = "[]"
             and after = "[]" and e = RpcError and info = "''vBNB''"]
  note bad = scan_partial_failure
          [where self = one_bad_pool and pancake_length = 3 and alpaca_length = 2
             and markets = "[]" and biswap_length = 0
             and pid = 1 and market = "''0xV2''" and outcomes = "[]" and before = "[]"
             and after = "[]" and e = RpcError and info = "''vBNB''"]
  have d1: "scan_pancakeswap pancake_down = []"
    and d2: "scan_venus pancake_down = [''vBNB'']"
    and d3: "scan_alpaca pancake_down = []"
    and d4: "scan_biswap pancake_down = [''bsw0'']"
    and d5: "get_venus_market_info pancake_down ''0xV2'' = Some ''vBNB''"
    and d6: "scan_protocols pancake_down =
               scan_pancakeswap pancake_down @ scan_venus pancake_down
               @ scan_alpaca pancake_down @ scan_biswap pancake_down"
    using down
    by (simp_all add: pancake_down_def no_farm_def biswap_farm2_def successes_def upt_rec)
  have b1: "scan_pancakeswap one_bad_pool = [''pool0'', ''pool2'']"
    and b2: "scan_venus one_bad_pool = []"
    and b3: "scan_alpaca one_bad_pool = [''alp1'']"
    and b4: "scan_biswap one_bad_pool = []"
    and b5: "get_pancake_pool_info one_bad_pool 1 = None"
    and b6: "scan_protocols one_bad_pool =
               scan_pancakeswap one_bad_pool @ scan_venus one_bad_pool
               @ scan_alpaca one_bad_pool @ scan_biswap one_bad_pool"
    using bad
    by (simp_all add: one_bad_pool_def no_farm_def farm3_def alpaca_farm2_def successes_def upt_rec)
  show ?thesis
    using b5 by (simp add: d1 d2 d3 d4 d5 d6 b1 b2 b3 b4 b6)
qed


section \<open>Properties of the ranking\<close>

lemma sorted_reverse_descending:
  "sorted_wrt (\<lambda>x y. key x \<ge> key y) (sorted_reverse key xs)"
proof -
  have "sorted (map key (sort_key key (rev xs)))" by simp
  then have "sorted_wrt (\<lambda>x y. key x \<le> key y) (sort_key key (rev xs))"
    by (simp only: sorted_map)
  then show ?thesis
    by (simp add: sorted_reverse_def sorted_wrt_rev)
qed

lemma sorted_reverse_stable:
  "filter (\<lambda>x. key x = k) (sorted_reverse key xs) = filter (\<lambda>x. key x = k) xs"
proof -
  have "filter (\<lambda>x. key x = k) (sorted_reverse key xs)
          = rev (filter (\<lambda>x. key x = k) (sort_key key (rev xs)))"
    by (simp add: sorted_reverse_def rev_filter)
  also have "\<dots> = rev (filter (\<lambda>x. key x = k) (rev xs))"
    by (simp only: sort_key_stable)
  also have "\<dots> = filter (\<lambda>x. key x = k) xs"
    by (simp add: rev_filter)
  finally show ?thesis .
qed

lemma sorted_reverse_mset: "mset (sorted_reverse key xs) = mset xs"
  by (simp add: sorted_reverse_def)

lemma extend_all_Inr: "extend_all (map Inr oss) acc = Inr (acc @ concat oss)"
  by (induction oss arbitrary: acc) simp_all

text \<open>
  Claim C1, as stated, fails: two opportunities with the same expected ROI, the first
  with the higher risk score, pass the filter and come out in their input order, from
  \<open>YieldStrategy.scan_opportunities\<close> and from \<open>scan_all_opportunities\<close> alike; the
  tie-break by ascending risk is not applied.
\<close>

theorem tie_break_not_applied:
  "YieldStrategy_scan_opportunities (Inr [opp_a, opp_b]) = [opp_a, opp_b]
   \<and> scan_all_opportunities [Inr [opp_a], Inr [opp_b]] = Inr [opp_a, opp_b]
   \<and> \<not> sorted_wrt ranked_before [opp_a, opp_b]"
  by (simp add: YieldStrategy_scan_opportunities_def scan_all_opportunities_def
        sorted_reverse_def ranked_before_def opp_a_def opp_b_def)

text \<open>
  Claim C1, amended. The list returned by \<open>YieldStrategy.scan_opportunities\<close> holds
  exactly the opportunities that pass the filter, sorted by expected ROI in descending
  order, and opportunities with equal ROI keep the order in which they came in; the same
  holds for the list returned by \<open>scan_all_opportunities\<close> over the concatenation of
  the strategies' results. The order is deterministic given the input order.
\<close>

theorem ranked_by_roi_stable:
  "sorted_wrt (\<lambda>x y. expected_roi x \<ge> expected_roi y)
      (YieldStrategy_scan_opportunities (Inr opps))
   \<and> filter (\<lambda>x. expected_roi x = k) (YieldStrategy_scan_opportunities (Inr opps))
       = filter (\<lambda>x. expected_roi x = k) (filter_opportunities opps)
   \<and> mset (YieldStrategy_scan_opportunities (Inr opps)) = mset (filter_opportunities opps)
   \<and> (\<exists>ranked. scan_all_opportunities (map Inr oss) = Inr ranked
        \<and> sorted_wrt (\<lambda>x y. expected_roi x \<ge> expected_roi y) ranked
        \<and> filter (\<lambda>x. expected_roi x = k) ranked = filter (\<lambda>x. expected_roi x = k) (concat oss)
        \<and> mset ranked = mset (concat oss))"
  by (simp add: YieldStrategy_scan_opportunities_def scan_all_opportunities_def
        extend_all_Inr sorted_reverse_descending sorted_reverse_stable sorted_reverse_mset)


end
